theory Spec2Isabelle
  imports Main "HOL-Library.Sublist"
begin

section \<open>Association records\<close>

text \<open>
  An association maps a third-party identifier (medium, address) to an account
  identifier. \<open>mxid = None\<close> is Python's \<open>None\<close>: the identifier was unbound.
  A signed association is the JSON object of the association with an optional
  \<open>signatures\<close> field: server name to (key id to signature), kept as association
  lists in the iteration order of the Python dictionaries.
\<close>

record ThreepidAssociation =
  medium :: string
  address :: string
  mxid :: "string option"
  ts :: int

type_synonym signature_map = "(string \<times> (string \<times> string) list) list"

record SignedAssociation = ThreepidAssociation +
  signatures :: "signature_map option"

text \<open>
  Modelled from the spec: \<open>threePidAssocFromDict\<close> (sydent.threepid, not among the
  sources) reads the association object out of the JSON object of a signed
  association; the signatures are not part of the object.
\<close>

definition threePidAssocFromDict :: "SignedAssociation \<Rightarrow> ThreepidAssociation" where
  "threePidAssocFromDict sgAssoc =
     \<lparr>medium = medium sgAssoc, address = address sgAssoc, mxid = mxid sgAssoc, ts = ts sgAssoc\<rparr>"

section \<open>The global association store\<close>

text \<open>
  Modelled from the spec: the global store (GlobalAssociationStore, not among the
  sources) holds one row per identity (medium, address); \<open>addAssociation\<close> is the
  upsert tagged with the origin server and the origin row id, \<open>removeAssociation\<close>
  removes the mapping of an identity and is a no-op when there is none. The JSON text
  of the signed association that the row keeps is represented by the signed
  association it serialises.
\<close>

record global_row =
  row_mxid :: "string option"
  row_ts :: int
  originServer :: string
  originId :: int
  sgAssoc :: SignedAssociation

type_synonym global_store = "string \<times> string \<Rightarrow> global_row option"

definition addAssociation ::
  "ThreepidAssociation \<Rightarrow> SignedAssociation \<Rightarrow> string \<Rightarrow> int \<Rightarrow> global_store \<Rightarrow> global_store" where
  "addAssociation assoc rawSgAssoc origin_server origin_id g =
     g((medium assoc, address assoc) \<mapsto>
        \<lparr>row_mxid = mxid assoc, row_ts = ts assoc, originServer = origin_server,
         originId = origin_id, sgAssoc = rawSgAssoc\<rparr>)"

definition removeAssociation :: "string \<Rightarrow> string \<Rightarrow> global_store \<Rightarrow> global_store" where
  "removeAssociation med addr g = g((med, addr) := None)"

section \<open>Peers (peer.py)\<close>

text \<open>
  The configuration object \<open>sydent\<close> as far as the replication code reads it.
  A shadow host that is not configured is \<open>None\<close> or the empty string; Python's
  truth test treats both alike.
\<close>

record sydent =
  server_name :: string
  shadow_hs_master :: "string option"
  shadow_hs_slave :: "string option"

definition truthy :: "string option \<Rightarrow> bool" where
  "truthy v = (case v of None \<Rightarrow> False | Some s \<Rightarrow> s \<noteq> [])"

text \<open>The outcome a Deferred resolves to: its callback value or its errback failure.\<close>

datatype ('e, 'a) deferred = Callback 'a | Errback 'e

record Peer =
  servername :: string
  pubkeys :: "(string \<times> string) list"

subsection \<open>LocalPeer\<close>

record LocalPeer = Peer +
  lp_sydent :: sydent
  lastId :: int

text \<open>
  \<open>LocalPeer.__init__\<close>: the server name is this server's, the key set is empty,
  and \<open>lastId\<close> is what the global store's \<open>lastIdFromServer\<close> query answers for
  that name, \<open>-1\<close> when it answers \<open>None\<close>. The query belongs to the store, which is
  not among the sources: it is the parameter \<open>lastIdFromServer\<close>.
\<close>

definition LocalPeer_init :: "sydent \<Rightarrow> (string \<Rightarrow> int option) \<Rightarrow> LocalPeer" where
  "LocalPeer_init syd lastIdFromServer =
     (let name = server_name syd in
      \<lparr>servername = name, pubkeys = [], lp_sydent = syd,
       lastId = (case lastIdFromServer name of None \<Rightarrow> - 1 | Some i \<Rightarrow> i)\<rparr>)"

text \<open>
  \<open>LocalPeer.pushUpdates\<close>. The batch \<open>sgAssocs\<close> is a Python dictionary from row
  id to signed association; \<open>for localId in sgAssocs\<close> visits its keys in the
  dictionary's own iteration order, so the batch is the list of its items in that
  order. The loop body is \<open>pushUpdates_entry\<close>; the loop threads the global store.
\<close>

definition pushUpdates_entry ::
  "LocalPeer \<Rightarrow> int \<times> SignedAssociation \<Rightarrow> global_store \<Rightarrow> global_store" where
  "pushUpdates_entry self entry g =
     (let localId = fst entry; sg = snd entry in
      if localId > lastId self then
        (let assocObj = threePidAssocFromDict sg in
         if mxid assocObj \<noteq> None
         then addAssociation assocObj sg (server_name (lp_sydent self)) localId g
         else removeAssociation (medium assocObj) (address assocObj) g)
      else g)"

fun pushUpdates_loop ::
  "LocalPeer \<Rightarrow> (int \<times> SignedAssociation) list \<Rightarrow> global_store \<Rightarrow> global_store" where
  "pushUpdates_loop self [] g = g"
| "pushUpdates_loop self (entry # rest) g = pushUpdates_loop self rest (pushUpdates_entry self entry g)"

text \<open>
  The call returns \<open>defer.succeed(True)\<close>. The peer object is returned as well, so
  that what the call does to \<open>self\<close> can be stated.
\<close>

definition LocalPeer_pushUpdates ::
  "LocalPeer \<Rightarrow> (int \<times> SignedAssociation) list \<Rightarrow> global_store
     \<Rightarrow> LocalPeer \<times> global_store \<times> (unit, bool) deferred" where
  "LocalPeer_pushUpdates self sgAssocs g = (self, pushUpdates_loop self sgAssocs g, Callback True)"

text \<open>
  The specification's reading of the same call, for comparison: the entries are
  visited in ascending row-id order.
\<close>

definition pushUpdates_ascending ::
  "LocalPeer \<Rightarrow> (int \<times> SignedAssociation) list \<Rightarrow> global_store
     \<Rightarrow> LocalPeer \<times> global_store \<times> (unit, bool) deferred" where
  "pushUpdates_ascending self sgAssocs g = LocalPeer_pushUpdates self (sort_key fst sgAssocs) g"

subsection \<open>RemotePeer\<close>

text \<open>
  A remote peer as the pusher sees it. The class sets \<open>replication_url\<close> and
  \<open>verify_key\<close>; the port, the shadow flag, the three last-sent cursors and the
  transient \<open>is_being_pushed_to\<close> flag are attributes the pusher reads from the peer
  object (the specification's peer data model lists them). The verify key is kept as
  the bytes of the key.
\<close>

record RemotePeer = Peer +
  replication_url :: string
  verify_key :: "nat list"
  port :: "int option"
  shadow :: bool
  lastSentAssocsId :: int
  lastSentInviteTokensId :: int
  lastSentEphemeralKeysId :: int
  is_being_pushed_to :: bool

definition SIGNING_KEY_ALGORITHM :: string where
  "SIGNING_KEY_ALGORITHM = ''ed25519''"

subsubsection \<open>Construction: the push endpoint and the verify key\<close>

text \<open>
  Python's \<open>int(pubkey, 16)\<close> returns for a string that, after surrounding white
  space, an optional sign and an optional \<open>0x\<close> prefix, is a non-empty run of
  hexadecimal digits, and raises ValueError otherwise. Only whether it returns matters
  to the constructor.
\<close>

definition hex_value :: "char \<Rightarrow> nat option" where
  "hex_value c =
     (let n = (of_char c :: nat) in
      if 48 \<le> n \<and> n \<le> 57 then Some (n - 48)
      else if 97 \<le> n \<and> n \<le> 102 then Some (n - 87)
      else if 65 \<le> n \<and> n \<le> 70 then Some (n - 55)
      else None)"

definition is_space :: "char \<Rightarrow> bool" where
  "is_space c = ((of_char c :: nat) \<in> {9, 10, 11, 12, 13, 32})"

definition strip :: "string \<Rightarrow> string" where
  "strip s = rev (dropWhile is_space (rev (dropWhile is_space s)))"

definition int_base16_parses :: "string \<Rightarrow> bool" where
  "int_base16_parses s =
     (let t = strip s;
          u = (case t of [] \<Rightarrow> [] | c # r \<Rightarrow> if c = CHR ''+'' \<or> c = CHR ''-'' then r else t);
          d = (if prefix ''0x'' u \<or> prefix ''0X'' u then drop 2 u else u)
      in d \<noteq> [] \<and> list_all (\<lambda>c. hex_value c \<noteq> None) d)"

text \<open>
  \<open>binascii.unhexlify\<close> of Python 2 (the module imports \<open>ConfigParser\<close>, which only
  Python 2 has): the bytes of an even number of hexadecimal digits; for any other
  string it raises TypeError, here \<open>None\<close>.
\<close>

fun unhexlify :: "string \<Rightarrow> nat list option" where
  "unhexlify [] = Some []"
| "unhexlify [c] = None"
| "unhexlify (a # b # rest) =
     (case (hex_value a, hex_value b, unhexlify rest) of
        (Some x, Some y, Some bytes) \<Rightarrow> Some ((16 * x + y) # bytes)
      | _ \<Rightarrow> None)"

datatype init_error =
    KeyError string
  | ConfigError string
  | TypeError string
  | VerifyKeyError string

text \<open>
  The key decoding of \<open>RemotePeer.__init__\<close>. \<open>decode_base64\<close> is the
  unpaddedbase64 library's decoder, a parameter: \<open>Inl\<close> is the exception it raised.
  The \<open>try\<close> block catches ValueError only, so the TypeError of \<open>unhexlify\<close>
  leaves the constructor as it is. The result carries the decoded bytes and whether
  the hex deprecation warning was logged.
\<close>

definition decode_pubkey ::
  "(string \<Rightarrow> string + nat list) \<Rightarrow> string \<Rightarrow> string \<Rightarrow> init_error + nat list \<times> bool" where
  "decode_pubkey decode_base64 name pubkey =
     (if int_base16_parses pubkey then
        (case unhexlify pubkey of
           None \<Rightarrow> Inl (TypeError ''unhexlify'')
         | Some pubkey_decoded \<Rightarrow> Inr (pubkey_decoded, True))
      else
        (case decode_base64 pubkey of
           Inl e \<Rightarrow> Inl (ConfigError (''Unable to decode public key for peer '' @ name @ '': '' @ e))
         | Inr pubkey_decoded \<Rightarrow> Inr (pubkey_decoded, False)))"

fun show_nat :: "nat \<Rightarrow> string" where
  "show_nat n =
     (if n < 10 then [''0123456789'' ! n] else show_nat (n div 10) @ [''0123456789'' ! (n mod 10)])"

definition show_int :: "int \<Rightarrow> string" where
  "show_int i = (if i < 0 then CHR ''-'' # show_nat (nat (- i)) else show_nat (nat i))"

text \<open>
  \<open>RemotePeer.__init__\<close>. \<open>base_replication_url\<close> is the configured override of
  the section \<open>peer.<name>\<close>, \<open>None\<close> when the section or the option is missing.
  \<open>decode_verify_key_bytes\<close> is the signedjson library's constructor of the verify
  key from the key id \<open>ed25519:\<close> and the decoded bytes (l.124), a parameter: \<open>Inl\<close>
  is the exception it raised, for bytes that make no key. The call stands after the
  \<open>try\<close> block, so that exception leaves the constructor as it is
  (\<open>VerifyKeyError\<close>). The attributes that the class does not set are taken from
  \<open>rest\<close>.
\<close>

definition RemotePeer_init ::
  "(string \<Rightarrow> string + nat list) \<Rightarrow> (string \<Rightarrow> nat list \<Rightarrow> string + nat list)
     \<Rightarrow> string option \<Rightarrow> string \<Rightarrow> int option
     \<Rightarrow> (string \<times> string) list \<Rightarrow> RemotePeer \<Rightarrow> init_error + RemotePeer \<times> bool" where
  "RemotePeer_init decode_base64 decode_verify_key_bytes base_replication_url name port0 keys rest =
     (let url0 = (case base_replication_url of
                    Some u \<Rightarrow> u
                  | None \<Rightarrow>
                      ''https://'' @ name @ '':'' @
                      show_int (case port0 of None \<Rightarrow> 1001 | Some n \<Rightarrow> if n = 0 then 1001 else n));
          url1 = (if url0 \<noteq> [] \<and> last url0 = CHR ''/'' then url0 else url0 @ ''/'');
          url = url1 @ ''_matrix/identity/replicate/v1/push''
      in case map_of keys SIGNING_KEY_ALGORITHM of
           None \<Rightarrow> Inl (KeyError SIGNING_KEY_ALGORITHM)
         | Some pubkey \<Rightarrow>
             (case decode_pubkey decode_base64 name pubkey of
                Inl err \<Rightarrow> Inl err
              | Inr (pubkey_decoded, warned) \<Rightarrow>
                  (case decode_verify_key_bytes (SIGNING_KEY_ALGORITHM @ '':'') pubkey_decoded of
                     Inl raised \<Rightarrow> Inl (VerifyKeyError raised)
                   | Inr key \<Rightarrow>
                       Inr (rest\<lparr>servername := name, pubkeys := keys, replication_url := url,
                                 verify_key := key\<rparr>, warned))))"

subsubsection \<open>verifySignedAssociation\<close>

text \<open>
  \<open>signature_ids\<close> of the signedjson library: the key ids under the given server
  name whose algorithm part (the text before the first colon) is a supported algorithm,
  in the dictionary's iteration order. \<open>server_key_ids\<close> are all the key ids under a
  server name.
\<close>

definition SUPPORTED_ALGORITHMS :: "string list" where
  "SUPPORTED_ALGORITHMS = [''ed25519'']"

definition server_key_ids :: "signature_map \<Rightarrow> string \<Rightarrow> string list" where
  "server_key_ids sigs name = (case map_of sigs name of None \<Rightarrow> [] | Some ks \<Rightarrow> map fst ks)"

definition signature_ids :: "SignedAssociation \<Rightarrow> string \<Rightarrow> string list" where
  "signature_ids json_object signature_name =
     filter (\<lambda>key_id. takeWhile (\<lambda>c. c \<noteq> CHR '':'') key_id \<in> set SUPPORTED_ALGORITHMS)
       (server_key_ids (case signatures json_object of None \<Rightarrow> [] | Some sigs \<Rightarrow> sigs)
          signature_name)"

datatype verify_error =
    NoSignaturesException
  | NoMatchingSignatureException (foundSigs: "string list") (requiredServername: string)
  | SignatureVerifyException

text \<open>
  \<open>verify_signed_json\<close> is the verification capability, a parameter: it answers
  whether the signature of the named server checks against the key, and the library
  raises SignatureVerifyException when it does not.
\<close>

definition verifySignedAssociation ::
  "(SignedAssociation \<Rightarrow> string \<Rightarrow> nat list \<Rightarrow> bool) \<Rightarrow> RemotePeer \<Rightarrow> SignedAssociation
     \<Rightarrow> verify_error + unit" where
  "verifySignedAssociation verify_signed_json self assoc =
     (case signatures assoc of
        None \<Rightarrow> Inl NoSignaturesException
      | Some sigs \<Rightarrow>
          (let key_ids = signature_ids assoc (servername self) in
           if key_ids = [] \<or> length key_ids = 0
              \<or> \<not> prefix (SIGNING_KEY_ALGORITHM @ '':'') (hd key_ids)
           then Inl (NoMatchingSignatureException (map fst sigs) (servername self))
           else if verify_signed_json assoc (servername self) (verify_key self)
                then Inr () else Inl SignatureVerifyException))"

text \<open>
  The specification's reading of the no-matching-signature condition, for comparison:
  it carries the signature key ids that are present.
\<close>

definition present_key_ids :: "signature_map \<Rightarrow> string list" where
  "present_key_ids sigs = concat (map (\<lambda>entry. map fst (snd entry)) sigs)"

subsubsection \<open>pushUpdates\<close>

text \<open>
  The HTTP client is a parameter: \<open>postJson url body\<close> is what the request's Deferred
  resolves to, a response or (\<open>Inl\<close>) the transport failure. \<open>resp_body\<close> of a
  response is what \<open>readBody\<close> resolves to for it. \<open>json_loads\<close> is the JSON parser,
  \<open>Inl\<close> the ValueError it raises. The call cannot raise: it wires callbacks and
  returns \<open>updateDeferred\<close>, whose outcome is the value of the model.
\<close>

record 'e http_response =
  code :: int
  phrase :: string
  resp_body :: "'e + string"

datatype ('e, 'j) push_failure = Failure 'e | RemotePeerError (errorDict: 'j)

definition pushFailed :: "'e \<Rightarrow> (('e, 'j) push_failure, 'a) deferred" where
  "pushFailed failure = Errback (Failure failure)"

definition failedPushBodyRead ::
  "(string \<Rightarrow> 'e + 'j) \<Rightarrow> string \<Rightarrow> (('e, 'j) push_failure, 'a) deferred" where
  "failedPushBodyRead json_loads body =
     (case json_loads body of
        Inr errObj \<Rightarrow> Errback (RemotePeerError errObj)
      | Inl raised \<Rightarrow> pushFailed raised)"

definition pushSuccess ::
  "(string \<Rightarrow> 'e + 'j) \<Rightarrow> 'e http_response
     \<Rightarrow> (('e, 'j) push_failure, 'e http_response) deferred" where
  "pushSuccess json_loads result =
     (if code result \<ge> 200 \<and> code result < 300 then Callback result
      else (case resp_body result of
              Inr body \<Rightarrow> failedPushBodyRead json_loads body
            | Inl failure \<Rightarrow> pushFailed failure))"

definition RemotePeer_pushUpdates ::
  "(string \<Rightarrow> 'b \<Rightarrow> 'e + 'e http_response) \<Rightarrow> (string \<Rightarrow> 'e + 'j) \<Rightarrow> RemotePeer \<Rightarrow> 'b
     \<Rightarrow> (('e, 'j) push_failure, 'e http_response) deferred" where
  "RemotePeer_pushUpdates postJson json_loads self sgAssocs =
     (case postJson (replication_url self) sgAssocs of
        Inr result \<Rightarrow> pushSuccess json_loads result
      | Inl failure \<Rightarrow> pushFailed failure)"

section \<open>The stores the pusher reads and writes\<close>

text \<open>
  Modelled from the spec: the local association store (sydent.db, not among the
  sources) answers \<open>getAssociationsAfterId(cursor, limit)\<close> with the rows whose id is
  greater than the cursor, in ascending id order and at most \<open>limit\<close> of them (all of
  them for \<open>None\<close>), and with the highest id among the returned rows, \<open>None\<close> when
  there is none. A table is the list of its rows with their ids.
\<close>

type_synonym 'r table = "(int \<times> 'r) list"

definition getAfterId :: "'r table \<Rightarrow> int \<Rightarrow> nat option \<Rightarrow> (int \<times> 'r) list \<times> int option" where
  "getAfterId tbl afterId limit =
     (let rows = filter (\<lambda>row. fst row > afterId) (sort_key fst tbl);
          got = (case limit of None \<Rightarrow> rows | Some n \<Rightarrow> take n rows)
      in (got, if got = [] then None else Some (fst (last got))))"

definition getAssociationsAfterId ::
  "ThreepidAssociation table \<Rightarrow> int \<Rightarrow> nat option
     \<Rightarrow> (int \<times> ThreepidAssociation) list \<times> int option" where
  "getAssociationsAfterId = getAfterId"

text \<open>
  Modelled from the spec: the peer store (sydent.db.peers, not among the sources)
  keeps, per peer name, the three persisted cursors and the time of the last
  successful push.
\<close>

record peer_row =
  sentAssocsId :: int
  sentInviteTokensId :: int
  sentEphemeralKeysId :: int
  lastPokeSucceededAt :: "int option"

type_synonym peer_store = "string \<Rightarrow> peer_row option"

section \<open>The pusher (pusher.py)\<close>

definition EPHEMERAL_PUBLIC_KEYS_PUSH_LIMIT :: nat where
  "EPHEMERAL_PUBLIC_KEYS_PUSH_LIMIT = 100"

definition INVITE_TOKENS_PUSH_LIMIT :: nat where
  "INVITE_TOKENS_PUSH_LIMIT = 100"

definition ASSOCIATIONS_PUSH_LIMIT :: nat where
  "ASSOCIATIONS_PUSH_LIMIT = 100"

subsection \<open>getSignedAssociationsAfterId\<close>

text \<open>
  Python's \<open>str.replace(old, new)\<close>: every occurrence of \<open>old\<close>, found from the left
  and not overlapping, becomes \<open>new\<close>; for an empty \<open>old\<close>, \<open>new\<close> goes before every
  character and at the end.
\<close>

function replace_from :: "string \<Rightarrow> string \<Rightarrow> string \<Rightarrow> string" where
  "replace_from old new [] = []"
| "replace_from old new (c # cs) =
     (if old \<noteq> [] \<and> prefix old (c # cs)
      then new @ replace_from old new (drop (length old) (c # cs))
      else c # replace_from old new cs)"
  by pat_completeness auto
termination
  by (relation "measure (\<lambda>(old, new, s). length s)") auto

definition str_replace :: "string \<Rightarrow> string \<Rightarrow> string \<Rightarrow> string" where
  "str_replace old new s =
     (if old = [] then new @ concat (map (\<lambda>c. c # new) s) else replace_from old new s)"

text \<open>
  The body of the loop before signing: for a shadow peer with both shadow hosts
  configured, an association with a (non-empty) mxid gets
  \<open>mxid.replace(":" + shadow_hs_master, ":" + shadow_hs_slave)\<close>.
\<close>

definition shadow_rewrite :: "sydent \<Rightarrow> bool \<Rightarrow> ThreepidAssociation \<Rightarrow> ThreepidAssociation" where
  "shadow_rewrite syd is_shadow assoc =
     (if is_shadow \<and> truthy (shadow_hs_master syd) \<and> truthy (shadow_hs_slave syd) then
        (if truthy (mxid assoc)
         then assoc\<lparr>mxid :=
                map_option
                  (str_replace ('':'' @ the (shadow_hs_master syd)) ('':'' @ the (shadow_hs_slave syd)))
                  (mxid assoc)\<rparr>
         else assoc)
      else assoc)"

text \<open>
  \<open>signedThreePidAssociation\<close> of the Signer (not among the sources) is the signing
  capability, the parameter \<open>sign\<close>. The dictionary \<open>assocs\<close> that the loop fills
  is given by its items, listed in the order of the fetch.
\<close>

definition getSignedAssociationsAfterId ::
  "sydent \<Rightarrow> ThreepidAssociation table \<Rightarrow> (ThreepidAssociation \<Rightarrow> SignedAssociation)
     \<Rightarrow> int \<Rightarrow> nat option \<Rightarrow> bool \<Rightarrow> (int \<times> SignedAssociation) list \<times> int option" where
  "getSignedAssociationsAfterId syd store sign afterId limit is_shadow =
     (let (localAssocs, maxId) = getAssociationsAfterId store afterId limit;
          assocs = map (\<lambda>(localId, assoc). (localId, sign (shadow_rewrite syd is_shadow assoc)))
                     localAssocs
      in (assocs, maxId))"

text \<open>
  The specification's reading of the rewrite, for comparison: the domain suffix of the
  account identifier is replaced.
\<close>

definition replace_domain_suffix :: "string \<Rightarrow> string \<Rightarrow> string \<Rightarrow> string" where
  "replace_domain_suffix master slave x =
     (if suffix ('':'' @ master) x
      then take (length x - length ('':'' @ master)) x @ '':'' @ slave
      else x)"

subsection \<open>The module as the compiler reads it\<close>

text \<open>
  Python compiles a module as a whole before it runs any of it, and refuses it with
  SyntaxError when a \<open>continue\<close> or a \<open>break\<close> stands outside every loop of the
  function (class body, module) that contains it. Only the nesting of the statements
  matters to that check, so a statement is given here by the line of pusher.py at
  which it starts, and a compound statement by its line and the statements of its
  blocks: the two branches of an \<open>if\<close>, the body of a loop, the \<open>try\<close>, \<open>except\<close>
  and \<open>finally\<close> blocks, the body of a function or class definition.
\<close>

datatype py_exception =
    SyntaxError nat string
  | NameError string

datatype stmt =
    Stmt nat
  | Continue nat
  | Break nat
  | IfStmt nat "stmt list" "stmt list"
  | WhileLoop nat "stmt list"
  | ForLoop nat "stmt list"
  | TryStmt nat "stmt list" "stmt list" "stmt list"
  | FunctionDef nat "stmt list"
  | ClassDef nat "stmt list"

text \<open>
  \<open>loop_errors inside s\<close> are the misplaced \<open>continue\<close> and \<open>break\<close> statements of
  \<open>s\<close>, in the order of the source; \<open>inside\<close> says whether \<open>s\<close> stands in a loop of
  the function at hand. A loop body is inside; the body of a function or class
  definition starts outside again. \<open>compile_module\<close> reports the first of them.
\<close>

fun loop_errors :: "bool \<Rightarrow> stmt \<Rightarrow> py_exception list" where
  "loop_errors inside (Stmt l) = []"
| "loop_errors inside (Continue l) =
     (if inside then [] else [SyntaxError l ''continue not properly in loop''])"
| "loop_errors inside (Break l) =
     (if inside then [] else [SyntaxError l ''break outside loop''])"
| "loop_errors inside (IfStmt l body orelse) =
     concat (map (loop_errors inside) body) @ concat (map (loop_errors inside) orelse)"
| "loop_errors inside (WhileLoop l body) = concat (map (loop_errors True) body)"
| "loop_errors inside (ForLoop l body) = concat (map (loop_errors True) body)"
| "loop_errors inside (TryStmt l body handler finalbody) =
     concat (map (loop_errors inside) body) @ concat (map (loop_errors inside) handler) @
     concat (map (loop_errors inside) finalbody)"
| "loop_errors inside (FunctionDef l body) = concat (map (loop_errors False) body)"
| "loop_errors inside (ClassDef l body) = concat (map (loop_errors False) body)"

definition compile_module :: "stmt list \<Rightarrow> py_exception + unit" where
  "compile_module stmts =
     (case concat (map (loop_errors False) stmts) of
        [] \<Rightarrow> Inr ()
      | err # _ \<Rightarrow> Inl err)"

text \<open>
  The statements of pusher.py. \<open>scheduledPush\<close> (l.96) has its \<open>for\<close> loop over the
  peers at l.102, which ends with the call of l.107. \<open>_push_to_peer\<close> (l.110) starts
  with the guard of l.112, whose branch is the log call of l.113 and the \<open>continue\<close> of
  l.114; the \<open>while True\<close> of l.120, with the \<open>break\<close> of l.141, comes after it, inside
  the \<open>try\<close> of l.118.
\<close>

definition init_source :: stmt where
  "init_source = FunctionDef 37 [Stmt 38, Stmt 39, Stmt 40]"

definition setup_source :: stmt where
  "setup_source = FunctionDef 42 [Stmt 43, Stmt 44]"

definition getSignedAssociationsAfterId_source :: stmt where
  "getSignedAssociationsAfterId_source =
     FunctionDef 46
       [Stmt 47, Stmt 63, Stmt 65, Stmt 66, Stmt 68,
        ForLoop 70 [IfStmt 71 [IfStmt 73 [Stmt 74] []] [], Stmt 79],
        Stmt 81]"

definition doLocalPush_source :: stmt where
  "doLocalPush_source = FunctionDef 83 [Stmt 84, Stmt 90, Stmt 92, Stmt 94]"

definition scheduledPush_source :: stmt where
  "scheduledPush_source =
     FunctionDef 96 [Stmt 97, Stmt 98, Stmt 100, ForLoop 102 [Stmt 103, Stmt 107]]"

definition push_to_peer_source :: stmt where
  "push_to_peer_source =
     FunctionDef 110
       [IfStmt 112 [Stmt 113, Continue 114] [],
        Stmt 116,
        TryStmt 118
          [WhileLoop 120
             [Stmt 122, Stmt 125, Stmt 126, Stmt 129, Stmt 130, Stmt 133, Stmt 134, Stmt 135,
              Stmt 137, IfStmt 140 [Break 141] [], Stmt 143, Stmt 144, Stmt 146, Stmt 149]]
          [Stmt 151]
          [Stmt 154]]"

definition pusher_py :: "stmt list" where
  "pusher_py =
     [Stmt 17, Stmt 18, Stmt 20, Stmt 21, Stmt 23, Stmt 24, Stmt 25, Stmt 26, Stmt 27, Stmt 28,
      Stmt 30, Stmt 32, Stmt 33, Stmt 34,
      ClassDef 36
        [init_source, setup_source, getSignedAssociationsAfterId_source, doLocalPush_source,
         scheduledPush_source, push_to_peer_source]]"

subsection \<open>The names the routines can see\<close>

text \<open>
  A name that a function uses is one of its local names (its parameters and the names
  it assigns), or else it is looked up, when the statement runs, among the names that
  the module binds at its top level and then among the builtins; NameError is raised
  when it is in none of them. The names that a class body binds, the methods among
  them, are attributes of the class and are not among the names its methods can see.

  \<open>module_globals\<close> are the names that pusher.py binds at its top level (l.17 to
  l.36); the module imports no \<open>defer\<close>. \<open>builtin_names\<close> are the builtins that the
  two routines name. The header of l.110 is \<open>def _push_to_peer(p, )\<close>: the routine's
  local names are \<open>p\<close> and what its body assigns. \<open>scheduledPush\<close> takes \<open>self\<close>
  and binds \<open>join_token_store\<close>, \<open>peers\<close> and \<open>p\<close>.
\<close>

definition module_globals :: "string list" where
  "module_globals =
     [''logging'', ''copy'', ''twisted'', ''time_msec'', ''LocalPeer'', ''LocalAssociationStore'',
      ''JoinTokenStore'', ''PeerStore'', ''Signer'', ''logger'',
      ''EPHEMERAL_PUBLIC_KEYS_PUSH_LIMIT'', ''INVITE_TOKENS_PUSH_LIMIT'',
      ''ASSOCIATIONS_PUSH_LIMIT'', ''Pusher'']"

definition builtin_names :: "string list" where
  "builtin_names = [''True'', ''Exception'', ''len'']"

definition scheduledPush_locals :: "string list" where
  "scheduledPush_locals = [''self'', ''join_token_store'', ''peers'', ''p'']"

definition push_to_peer_locals :: "string list" where
  "push_to_peer_locals = [''p'', ''push_data'', ''ids'', ''total_updates'', ''result'', ''e'']"

definition load_name :: "string list \<Rightarrow> string \<Rightarrow> py_exception + unit" where
  "load_name scope n =
     (if n \<in> set scope \<or> n \<in> set module_globals \<or> n \<in> set builtin_names then Inr ()
      else Inl (NameError n))"

text \<open>
  The names of an expression are loaded in the order of its evaluation; the first
  that is not bound raises.
\<close>

fun load_names :: "string list \<Rightarrow> string list \<Rightarrow> py_exception + unit" where
  "load_names scope [] = Inr ()"
| "load_names scope (n # ns) =
     (case load_name scope n of
        Inl raised \<Rightarrow> Inl raised
      | Inr _ \<Rightarrow> load_names scope ns)"

subsection \<open>The push session of one peer\<close>

text \<open>
  The dictionary \<open>push_data\<close> that a pass of the loop fills, and the state a session
  works on: the peer object \<open>p\<close>, the peer store, and the calls made so far to the
  collaborators: the three fetches (l.129, l.133, l.134) with their cursor, the
  delivery (l.144) with its batch, the persist (l.149) with the peer's name.
\<close>

record push_data =
  sg_assocs :: "(int \<times> SignedAssociation) list"
  invite_tokens :: "(int \<times> string) list"
  ephemeral_public_keys :: "(int \<times> string) list"

datatype call =
    GetSignedAssociationsAfterId int
  | GetInviteTokensAfterId int
  | GetEphemeralPublicKeysAfterId int
  | PushUpdates push_data
  | SetLastSentIdAndPokeSucceeded string

record session =
  peer :: RemotePeer
  peerStore :: peer_store
  calls :: "call list"

text \<open>
  The statements of \<open>_push_to_peer\<close> after the guard, l.116 to l.154, as they run for
  a peer whose flag is clear. The flag is set (l.116). The \<open>try\<close> block enters the
  loop, whose first pass binds three local names (l.122 to l.126) and then evaluates the
  right-hand side of l.129,
  \<open>self.getSignedAssociationsAfterId(p.lastSentAssocsId, ASSOCIATIONS_PUSH_LIMIT, p.shadow)\<close>,
  which loads the names \<open>self\<close>, \<open>p\<close>, \<open>ASSOCIATIONS_PUSH_LIMIT\<close> and \<open>p\<close> in that
  order. An exception raised there is caught by \<open>except Exception\<close> (l.150), whose
  handler loads \<open>logger\<close> and \<open>p\<close> to log it (l.151); the \<open>finally\<close> clause clears
  the flag (l.154) whether the handler returned (\<open>Caught\<close>, with the exception it
  logged) or raised itself (\<open>Raised\<close>). \<open>AtFetch\<close> is the remaining case, in which
  the names of l.129 are bound and the call is made with the flag still set; the routine
  is followed no further than that, since it is shown below that no session gets there.
\<close>

datatype session_end = Caught py_exception | Raised py_exception | AtFetch

definition line_129_names :: "string list" where
  "line_129_names = [''self'', ''p'', ''ASSOCIATIONS_PUSH_LIMIT'', ''p'']"

definition line_151_names :: "string list" where
  "line_151_names = [''logger'', ''p'']"

definition push_session :: "session \<Rightarrow> session_end \<times> session" where
  "push_session st =
     (let st1 = st\<lparr>peer := (peer st)\<lparr>is_being_pushed_to := True\<rparr>\<rparr>;
          st2 = st1\<lparr>peer := (peer st1)\<lparr>is_being_pushed_to := False\<rparr>\<rparr>
      in case load_names push_to_peer_locals line_129_names of
           Inl raised \<Rightarrow>
             (case load_names push_to_peer_locals line_151_names of
                Inl raised_in_handler \<Rightarrow> (Raised raised_in_handler, st2)
              | Inr _ \<Rightarrow> (Caught raised, st2))
         | Inr _ \<Rightarrow> (AtFetch, st1))"

section \<open>Notions and example data\<close>

text \<open>
  Two notions for stating what a call of \<open>LocalPeer.pushUpdates\<close> leaves in the
  global store. \<open>applicable self k batch\<close> are the entries of the batch, in iteration
  order, that pass the guard of \<open>self\<close> and concern the identity \<open>k\<close>;
  \<open>entry_row self e\<close> is what the identity of a processed entry \<open>e\<close> maps to
  afterwards.
\<close>

definition applicable ::
  "LocalPeer \<Rightarrow> string \<times> string \<Rightarrow> (int \<times> SignedAssociation) list
     \<Rightarrow> (int \<times> SignedAssociation) list" where
  "applicable self k batch =
     filter (\<lambda>e. fst e > lastId self \<and> (medium (snd e), address (snd e)) = k) batch"

definition entry_row :: "LocalPeer \<Rightarrow> int \<times> SignedAssociation \<Rightarrow> global_row option" where
  "entry_row self e =
     (if mxid (snd e) \<noteq> None
      then Some \<lparr>row_mxid = mxid (snd e), row_ts = ts (snd e),
                 originServer = server_name (lp_sydent self), originId = fst e,
                 sgAssoc = snd e\<rparr>
      else None)"

text \<open>Example data: a local peer whose store answered 5, a binding and its tombstone.\<close>

definition example_sydent :: sydent where
  "example_sydent =
     \<lparr>server_name = ''id.example'', shadow_hs_master = Some ''hs.org'',
      shadow_hs_slave = Some ''shadow.org''\<rparr>"

definition example_local_peer :: LocalPeer where
  "example_local_peer = LocalPeer_init example_sydent (\<lambda>_. Some 5)"

definition bind_row :: SignedAssociation where
  "bind_row =
     \<lparr>medium = ''email'', address = ''a@b.com'', mxid = Some ''@a:hs.org'', ts = 1,
      signatures = Some [(''id.example'', [(''ed25519:0'', ''sig'')])]\<rparr>"

definition tombstone_row :: SignedAssociation where
  "tombstone_row =
     \<lparr>medium = ''email'', address = ''a@b.com'', mxid = None, ts = 2,
      signatures = Some [(''id.example'', [(''ed25519:0'', ''sig'')])]\<rparr>"

definition example_remote_peer :: RemotePeer where
  "example_remote_peer =
     \<lparr>servername = ''peer.org'', pubkeys = [(''ed25519'', ''abcd'')],
      replication_url = ''https://peer.org:1001/_matrix/identity/replicate/v1/push'',
      verify_key = [171, 205], port = Some 1001, shadow = True,
      lastSentAssocsId = 5, lastSentInviteTokensId = 0, lastSentEphemeralKeysId = 0,
      is_being_pushed_to = False\<rparr>"

text \<open>Three records for the peer \<open>peer.org\<close>: unsigned, signed by another server, signed by it.\<close>

definition unsigned_row :: SignedAssociation where
  "unsigned_row =
     \<lparr>medium = ''email'', address = ''a@b.com'', mxid = Some ''@a:hs.org'', ts = 1,
      signatures = None\<rparr>"

definition foreign_sigs :: signature_map where
  "foreign_sigs = [(''other.org'', [(''ed25519:0'', ''sig'')])]"

definition foreign_signed_row :: SignedAssociation where
  "foreign_signed_row =
     \<lparr>medium = ''email'', address = ''a@b.com'', mxid = Some ''@a:hs.org'', ts = 1,
      signatures = Some foreign_sigs\<rparr>"

definition peer_sigs :: signature_map where
  "peer_sigs = [(''peer.org'', [(''ed25519:0'', ''sig'')])]"

definition peer_signed_row :: SignedAssociation where
  "peer_signed_row =
     \<lparr>medium = ''email'', address = ''a@b.com'', mxid = Some ''@a:hs.org'', ts = 1,
      signatures = Some peer_sigs\<rparr>"

text \<open>
  A stand-in for the JSON parser in examples: it knows the empty object and rejects
  everything else, as the real parser rejects an HTML error page.
\<close>

definition example_json_loads :: "string \<Rightarrow> string + (string \<times> string) list" where
  "example_json_loads body = (if body = ''{}'' then Inr [] else Inl ''ValueError'')"

definition example_response :: "int \<Rightarrow> string \<Rightarrow> string http_response" where
  "example_response status body = \<lparr>code = status, phrase = ''phrase'', resp_body = Inr body\<rparr>"


text \<open>
  The specification's end-to-end scenario: the peer \<open>peer.org\<close>, a shadow peer with
  its association cursor at 5; the local store holds rows 6, 7 and 8, row 8 a tombstone;
  no invite tokens and no ephemeral keys. \<open>example_session\<close> is the state in which
  a session for it starts: the flag clear, no call made, the persisted cursors those of
  the peer object. \<open>example_batch\<close> is what a fetch after 5 returns for it, signed
  and with the shadow rewrite applied.
\<close>

definition example_signer :: "ThreepidAssociation \<Rightarrow> SignedAssociation" where
  "example_signer a =
     \<lparr>medium = medium a, address = address a, mxid = mxid a, ts = ts a,
      signatures = Some [(''id.example'', [(''ed25519:0'', ''sig'')])]\<rparr>"

definition example_assoc :: "string \<Rightarrow> string option \<Rightarrow> ThreepidAssociation" where
  "example_assoc addr x = \<lparr>medium = ''email'', address = addr, mxid = x, ts = 1\<rparr>"

definition example_rows :: "ThreepidAssociation table" where
  "example_rows =
     [(6, example_assoc ''a@b.com'' (Some ''@a:hs.org'')),
      (7, example_assoc ''c@d.com'' (Some ''@c:hs.org'')),
      (8, example_assoc ''a@b.com'' None)]"

definition example_store :: peer_store where
  "example_store =
     Map.empty(''peer.org'' \<mapsto>
       \<lparr>sentAssocsId = 5, sentInviteTokensId = 0, sentEphemeralKeysId = 0,
        lastPokeSucceededAt = None\<rparr>)"

definition example_session :: session where
  "example_session = \<lparr>peer = example_remote_peer, peerStore = example_store, calls = []\<rparr>"

definition example_batch :: push_data where
  "example_batch =
     \<lparr>sg_assocs =
        [(6, example_signer (example_assoc ''a@b.com'' (Some ''@a:shadow.org''))),
         (7, example_signer (example_assoc ''c@d.com'' (Some ''@c:shadow.org''))),
         (8, example_signer (example_assoc ''a@b.com'' None))],
      invite_tokens = [], ephemeral_public_keys = []\<rparr>"


section \<open>LocalPeer: what a push leaves in the global store\<close>

lemma pushUpdates_entry_lookup:
  "pushUpdates_entry self e g k =
     (if fst e > lastId self \<and> (medium (snd e), address (snd e)) = k
      then entry_row self e else g k)"
  by (auto simp: pushUpdates_entry_def entry_row_def Let_def threePidAssocFromDict_def
      addAssociation_def removeAssociation_def)

text \<open>
  Last writer wins, in iteration order: an identity that no applicable entry names
  keeps its row, any other identity ends as its last applicable entry says.
\<close>

lemma pushUpdates_loop_lookup:
  "pushUpdates_loop self batch g k =
     (if applicable self k batch = [] then g k
      else entry_row self (last (applicable self k batch)))"
proof (induction batch arbitrary: g)
  case Nil
  show ?case by (simp add: applicable_def)
next
  case (Cons e rest)
  show ?case
    by (simp add: Cons.IH pushUpdates_entry_lookup applicable_def)
qed

lemma pushUpdates_loop_twice:
  "pushUpdates_loop self batch (pushUpdates_loop self batch g) = pushUpdates_loop self batch g"
  by (rule ext) (simp add: pushUpdates_loop_lookup)

text \<open>
  C5, as the code has it. \<open>LocalPeer.pushUpdates\<close> visits the entries in the
  iteration order of the batch dictionary (nothing sorts them): an entry whose id is
  not greater than \<open>lastId\<close> is skipped; a visited entry with an mxid is upserted
  under this server's name and the entry's row id; a visited entry without one removes
  the mapping of its (medium, address); so every identity ends as the last visited
  entry for it says. The call always resolves with \<open>True\<close>.
\<close>

theorem LocalPeer_pushUpdates_iteration_order:
  "snd (snd (LocalPeer_pushUpdates self batch g)) = Callback True \<and>
   fst (snd (LocalPeer_pushUpdates self batch g)) k =
     (if applicable self k batch = [] then g k
      else entry_row self (last (applicable self k batch)))"
  by (simp add: LocalPeer_pushUpdates_def pushUpdates_loop_lookup)

text \<open>
  C5 as stated fails: with the tombstone of row 8 ahead of the binding of row 6 in the
  dictionary's iteration order, the code removes first and binds second, so the
  address stays bound; visiting in ascending row-id order would leave it unbound.
\<close>

theorem LocalPeer_pushUpdates_not_ascending:
  "fst (snd (LocalPeer_pushUpdates example_local_peer [(8, tombstone_row), (6, bind_row)] Map.empty))
     (''email'', ''a@b.com'')
   \<noteq> fst (snd (pushUpdates_ascending example_local_peer [(8, tombstone_row), (6, bind_row)] Map.empty))
     (''email'', ''a@b.com'')"
  by (simp add: LocalPeer_pushUpdates_def pushUpdates_ascending_def example_local_peer_def
      LocalPeer_init_def pushUpdates_entry_def threePidAssocFromDict_def addAssociation_def
      removeAssociation_def tombstone_row_def bind_row_def)

text \<open>
  C6. Pushing the same batch twice in succession on one LocalPeer leaves the global
  store as pushing it once does, whatever the store held and whichever ids of the
  batch are at or below \<open>lastId\<close>.
\<close>

theorem LocalPeer_pushUpdates_idempotent:
  "fst (snd (LocalPeer_pushUpdates (fst (LocalPeer_pushUpdates self batch g)) batch
              (fst (snd (LocalPeer_pushUpdates self batch g)))))
   = fst (snd (LocalPeer_pushUpdates self batch g))"
  by (simp add: LocalPeer_pushUpdates_def pushUpdates_loop_twice)

text \<open>
  C10. \<open>lastId\<close> is set by the constructor (the store's answer for this server name,
  \<open>-1\<close> for \<open>None\<close>) and no call of \<open>pushUpdates\<close> changes it: the peer after a call
  has the \<open>lastId\<close> it had, the entries that pass the guard of a later call are those
  that pass the guard of the peer as constructed, and a later call does what it would
  have done had the earlier call not happened.
\<close>

theorem LocalPeer_lastId_frame:
  "lastId (LocalPeer_init syd lastIdFromServer) =
     (case lastIdFromServer (server_name syd) of None \<Rightarrow> - 1 | Some i \<Rightarrow> i) \<and>
   lastId (fst (LocalPeer_pushUpdates self batch g)) = lastId self \<and>
   applicable (fst (LocalPeer_pushUpdates self batch g)) k batch' = applicable self k batch' \<and>
   LocalPeer_pushUpdates (fst (LocalPeer_pushUpdates self batch g)) batch' g' =
     LocalPeer_pushUpdates self batch' g'"
  by (simp add: LocalPeer_init_def LocalPeer_pushUpdates_def Let_def)

section \<open>RemotePeer: construction\<close>

text \<open>
  C8, at the key \<open>abc\<close>. The string parses as a base-16 integer, so the hex branch is
  taken; it has an odd number of digits, so \<open>unhexlify\<close> raises TypeError, which the
  handler for ValueError does not catch: the base64 decoder is never asked and the
  constructor ends in a TypeError, not in a decoded key and not in a ConfigError,
  whatever the base64 decoder would have answered.
\<close>

theorem RemotePeer_init_odd_hex_key:
  "int_base16_parses ''abc'' \<and> unhexlify ''abc'' = None \<and>
   decode_pubkey decode_base64 name ''abc'' = Inl (TypeError ''unhexlify'') \<and>
   RemotePeer_init decode_base64 decode_verify_key_bytes base_url name port0
       [(''ed25519'', ''abc'')] rest
     = Inl (TypeError ''unhexlify'')"
  by (simp add: RemotePeer_init_def SIGNING_KEY_ALGORITHM_def decode_pubkey_def
      int_base16_parses_def strip_def is_space_def hex_value_def)

text \<open>Where the two decoders agree with the hex test, the constructor does as intended.\<close>

lemma decode_pubkey_hex:
  "int_base16_parses pubkey \<Longrightarrow> unhexlify pubkey = Some bytes \<Longrightarrow>
     decode_pubkey decode_base64 name pubkey = Inr (bytes, True)"
  by (simp add: decode_pubkey_def)

lemma decode_pubkey_base64:
  "\<not> int_base16_parses pubkey \<Longrightarrow> decode_base64 pubkey = Inr bytes \<Longrightarrow>
     decode_pubkey decode_base64 name pubkey = Inr (bytes, False)"
  by (simp add: decode_pubkey_def)

lemma decode_pubkey_neither:
  "\<not> int_base16_parses pubkey \<Longrightarrow> decode_base64 pubkey = Inl e \<Longrightarrow>
     \<exists>msg. decode_pubkey decode_base64 name pubkey = Inl (ConfigError msg)"
  by (simp add: decode_pubkey_def)

section \<open>RemotePeer: verifySignedAssociation\<close>

lemma colon_split:
  assumes "CHR '':'' \<in> set k"
  shows "k = takeWhile (\<lambda>c. c \<noteq> CHR '':'') k @ CHR '':'' # tl (dropWhile (\<lambda>c. c \<noteq> CHR '':'') k)"
proof -
  let ?P = "\<lambda>c. c \<noteq> CHR '':''"
  from assms have ne: "dropWhile ?P k \<noteq> []"
    by (simp add: dropWhile_eq_Nil_conv)
  then have "\<not> ?P (hd (dropWhile ?P k))"
    by (rule hd_dropWhile)
  then have "hd (dropWhile ?P k) = CHR '':''"
    by simp
  with ne have "dropWhile ?P k = CHR '':'' # tl (dropWhile ?P k)"
    by (metis list.collapse)
  then show ?thesis
    by (metis takeWhile_dropWhile_id)
qed

lemma supported_with_colon_has_prefix:
  assumes "takeWhile (\<lambda>c. c \<noteq> CHR '':'') k \<in> set SUPPORTED_ALGORITHMS"
    and "CHR '':'' \<in> set k"
  shows "prefix (SIGNING_KEY_ALGORITHM @ '':'') k"
proof -
  from assms(1) have "takeWhile (\<lambda>c. c \<noteq> CHR '':'') k = ''ed25519''"
    by (simp add: SUPPORTED_ALGORITHMS_def)
  with colon_split [OF assms(2)]
  have "k = ''ed25519'' @ CHR '':'' # tl (dropWhile (\<lambda>c. c \<noteq> CHR '':'') k)"
    by simp
  then obtain r where "k = (SIGNING_KEY_ALGORITHM @ '':'') @ r"
    by (simp add: SIGNING_KEY_ALGORITHM_def)
  then show ?thesis
    by (metis prefixI)
qed

lemma prefix_is_supported:
  assumes "prefix (SIGNING_KEY_ALGORITHM @ '':'') k"
  shows "takeWhile (\<lambda>c. c \<noteq> CHR '':'') k \<in> set SUPPORTED_ALGORITHMS"
proof -
  from assms obtain r where "k = ''ed25519:'' @ r"
    by (auto simp: SIGNING_KEY_ALGORITHM_def prefix_def)
  then show ?thesis
    by (simp add: SUPPORTED_ALGORITHMS_def)
qed

lemma no_prefix_no_match:
  assumes "signatures assoc = Some sigs"
    and "\<not> list_ex (prefix (SIGNING_KEY_ALGORITHM @ '':'')) (server_key_ids sigs (servername self))"
  shows "verifySignedAssociation V self assoc =
     Inl (NoMatchingSignatureException (map fst sigs) (servername self))"
proof -
  let ?ids = "signature_ids assoc (servername self)"
  have sub: "set ?ids \<subseteq> set (server_key_ids sigs (servername self))"
    using assms(1) by (auto simp: signature_ids_def)
  have "?ids = [] \<or> \<not> prefix (SIGNING_KEY_ALGORITHM @ '':'') (hd ?ids)"
  proof (cases "?ids = []")
    case True
    then show ?thesis by simp
  next
    case False
    then have "hd ?ids \<in> set ?ids" by simp
    with sub assms(2) show ?thesis
      by (auto simp: list_ex_iff)
  qed
  then show ?thesis
    using assms(1) by (auto simp: verifySignedAssociation_def Let_def)
qed

lemma wellformed_ids_delegate:
  assumes "signatures assoc = Some sigs"
    and "list_all (\<lambda>k. CHR '':'' \<in> set k) (server_key_ids sigs (servername self))"
    and "list_ex (prefix (SIGNING_KEY_ALGORITHM @ '':'')) (server_key_ids sigs (servername self))"
  shows "verifySignedAssociation V self assoc =
     (if V assoc (servername self) (verify_key self) then Inr () else Inl SignatureVerifyException)"
proof -
  let ?keys = "server_key_ids sigs (servername self)"
  let ?ids = "signature_ids assoc (servername self)"
  have ids: "?ids = filter (\<lambda>k. takeWhile (\<lambda>c. c \<noteq> CHR '':'') k \<in> set SUPPORTED_ALGORITHMS) ?keys"
    using assms(1) by (simp add: signature_ids_def)
  from assms(3) obtain k where k: "k \<in> set ?keys" "prefix (SIGNING_KEY_ALGORITHM @ '':'') k"
    by (auto simp: list_ex_iff)
  then have "k \<in> set ?ids"
    using ids prefix_is_supported by simp
  then have ne: "?ids \<noteq> []"
    by auto
  then have "hd ?ids \<in> set ?ids"
    by simp
  then have hd_in: "hd ?ids \<in> set ?keys"
    and hd_alg: "takeWhile (\<lambda>c. c \<noteq> CHR '':'') (hd ?ids) \<in> set SUPPORTED_ALGORITHMS"
    using ids by auto
  from hd_in assms(2) have "CHR '':'' \<in> set (hd ?ids)"
    by (auto simp: list_all_iff)
  with hd_alg have "prefix (SIGNING_KEY_ALGORITHM @ '':'') (hd ?ids)"
    by (rule supported_with_colon_has_prefix)
  with ne show ?thesis
    using assms(1) by (simp add: verifySignedAssociation_def Let_def)
qed

text \<open>
  C3, as the code has it. A record without a \<open>signatures\<close> field fails with
  NoSignaturesException. A record none of whose key ids under this peer's server name
  begins with \<open>ed25519:\<close> fails with NoMatchingSignatureException, which carries the
  keys of the \<open>signatures\<close> object, that is the names of the servers that signed, and
  the required server name. A record whose key ids under the server name all have the
  form algorithm:version and one of which begins with \<open>ed25519:\<close> is handed to the
  verification capability, and fails with SignatureVerifyException exactly when that
  rejects it.
\<close>

theorem verifySignedAssociation_conditions:
  "(signatures assoc = None \<longrightarrow>
      verifySignedAssociation V self assoc = Inl NoSignaturesException) \<and>
   (signatures assoc = Some sigs \<and>
    \<not> list_ex (prefix (SIGNING_KEY_ALGORITHM @ '':'')) (server_key_ids sigs (servername self)) \<longrightarrow>
      verifySignedAssociation V self assoc =
        Inl (NoMatchingSignatureException (map fst sigs) (servername self))) \<and>
   (signatures assoc = Some sigs \<and>
    list_all (\<lambda>k. CHR '':'' \<in> set k) (server_key_ids sigs (servername self)) \<and>
    list_ex (prefix (SIGNING_KEY_ALGORITHM @ '':'')) (server_key_ids sigs (servername self)) \<longrightarrow>
      verifySignedAssociation V self assoc =
        (if V assoc (servername self) (verify_key self) then Inr ()
         else Inl SignatureVerifyException))"
proof (intro conjI impI)
  assume "signatures assoc = None"
  then show "verifySignedAssociation V self assoc = Inl NoSignaturesException"
    by (simp add: verifySignedAssociation_def)
next
  assume "signatures assoc = Some sigs \<and>
    \<not> list_ex (prefix (SIGNING_KEY_ALGORITHM @ '':'')) (server_key_ids sigs (servername self))"
  then show "verifySignedAssociation V self assoc =
        Inl (NoMatchingSignatureException (map fst sigs) (servername self))"
    using no_prefix_no_match by blast
next
  assume "signatures assoc = Some sigs \<and>
    list_all (\<lambda>k. CHR '':'' \<in> set k) (server_key_ids sigs (servername self)) \<and>
    list_ex (prefix (SIGNING_KEY_ALGORITHM @ '':'')) (server_key_ids sigs (servername self))"
  then show "verifySignedAssociation V self assoc =
        (if V assoc (servername self) (verify_key self) then Inr ()
         else Inl SignatureVerifyException)"
    using wellformed_ids_delegate by blast
qed

text \<open>
  The three conditions at the example records: no signatures; signed by another server
  only; signed by the peer, once with a capability that accepts and once with one that
  rejects.
\<close>

theorem verifySignedAssociation_conditions_witness:
  "verifySignedAssociation (\<lambda>_ _ _. True) example_remote_peer unsigned_row
     = Inl NoSignaturesException \<and>
   verifySignedAssociation (\<lambda>_ _ _. True) example_remote_peer foreign_signed_row
     = Inl (NoMatchingSignatureException [''other.org''] ''peer.org'') \<and>
   verifySignedAssociation (\<lambda>_ _ _. True) example_remote_peer peer_signed_row = Inr () \<and>
   verifySignedAssociation (\<lambda>_ _ _. False) example_remote_peer peer_signed_row
     = Inl SignatureVerifyException"
  using verifySignedAssociation_conditions
          [where assoc = unsigned_row and V = "\<lambda>_ _ _. True" and self = example_remote_peer
             and sigs = foreign_sigs]
        verifySignedAssociation_conditions
          [where assoc = foreign_signed_row and V = "\<lambda>_ _ _. True" and self = example_remote_peer
             and sigs = foreign_sigs]
        verifySignedAssociation_conditions
          [where assoc = peer_signed_row and V = "\<lambda>_ _ _. True" and self = example_remote_peer
             and sigs = peer_sigs]
        verifySignedAssociation_conditions
          [where assoc = peer_signed_row and V = "\<lambda>_ _ _. False" and self = example_remote_peer
             and sigs = peer_sigs]
  by (simp add: unsigned_row_def foreign_signed_row_def peer_signed_row_def foreign_sigs_def
      peer_sigs_def example_remote_peer_def server_key_ids_def SIGNING_KEY_ALGORITHM_def)

text \<open>
  C3 as stated fails: for the record signed by \<open>other.org\<close> only, the exception
  carries the server name \<open>other.org\<close>; the signature key id that is present,
  \<open>ed25519:0\<close>, is not in it.
\<close>

theorem verifySignedAssociation_reports_server_names:
  "verifySignedAssociation (\<lambda>_ _ _. True) example_remote_peer foreign_signed_row
     = Inl (NoMatchingSignatureException [''other.org''] ''peer.org'') \<and>
   present_key_ids foreign_sigs = [''ed25519:0''] \<and>
   set [''other.org''] \<noteq> set (present_key_ids foreign_sigs)"
  by (simp add: verifySignedAssociation_def signature_ids_def server_key_ids_def
      foreign_signed_row_def foreign_sigs_def example_remote_peer_def present_key_ids_def)

section \<open>RemotePeer: pushUpdates\<close>

text \<open>
  C4, as the code has it. The outcome is a success exactly when the request resolved
  with a response whose status is in [200, 300), and then it is that response. A
  transport failure of the request is passed on as the failure. For any other status
  the outcome is a failure: RemotePeerError with the parsed body when the body could
  be read and parsed as JSON, the parser's error when it could not be parsed, the
  read's failure when it could not be read.
\<close>

theorem RemotePeer_pushUpdates_outcomes:
  "((\<exists>result. RemotePeer_pushUpdates postJson json_loads self batch = Callback result) \<longleftrightarrow>
      (\<exists>result. postJson (replication_url self) batch = Inr result \<and>
         200 \<le> code result \<and> code result < 300)) \<and>
   (postJson (replication_url self) batch = Inr result \<and> 200 \<le> code result \<and> code result < 300 \<longrightarrow>
      RemotePeer_pushUpdates postJson json_loads self batch = Callback result) \<and>
   (postJson (replication_url self) batch = Inl failure \<longrightarrow>
      RemotePeer_pushUpdates postJson json_loads self batch = Errback (Failure failure)) \<and>
   (postJson (replication_url self) batch = Inr result \<and> \<not> (200 \<le> code result \<and> code result < 300) \<longrightarrow>
      RemotePeer_pushUpdates postJson json_loads self batch =
        (case resp_body result of
           Inl failure \<Rightarrow> Errback (Failure failure)
         | Inr body \<Rightarrow>
             (case json_loads body of
                Inr errObj \<Rightarrow> Errback (RemotePeerError errObj)
              | Inl raised \<Rightarrow> Errback (Failure raised))))"
  by (auto simp: RemotePeer_pushUpdates_def pushSuccess_def failedPushBodyRead_def
      pushFailed_def split: sum.splits)

theorem RemotePeer_pushUpdates_outcomes_witness:
  "RemotePeer_pushUpdates (\<lambda>_ _. Inr (example_response 200 ''ok'')) example_json_loads
     example_remote_peer [(6 :: int, bind_row)] = Callback (example_response 200 ''ok'') \<and>
   RemotePeer_pushUpdates (\<lambda>_ _. Inl ''timeout'') example_json_loads
     example_remote_peer [(6 :: int, bind_row)] = Errback (Failure ''timeout'') \<and>
   RemotePeer_pushUpdates (\<lambda>_ _. Inr (example_response 500 ''{}'')) example_json_loads
     example_remote_peer [(6 :: int, bind_row)] = Errback (RemotePeerError [])"
  using RemotePeer_pushUpdates_outcomes
          [where postJson = "\<lambda>_ _. Inr (example_response 200 ''ok'')"
             and json_loads = example_json_loads and self = example_remote_peer
             and batch = "[(6 :: int, bind_row)]" and result = "example_response 200 ''ok''"
             and failure = "''timeout''"]
        RemotePeer_pushUpdates_outcomes
          [where postJson = "\<lambda>_ _. Inl ''timeout''"
             and json_loads = example_json_loads and self = example_remote_peer
             and batch = "[(6 :: int, bind_row)]" and result = "example_response 200 ''ok''"
             and failure = "''timeout''"]
        RemotePeer_pushUpdates_outcomes
          [where postJson = "\<lambda>_ _. Inr (example_response 500 ''{}'')"
             and json_loads = example_json_loads and self = example_remote_peer
             and batch = "[(6 :: int, bind_row)]" and result = "example_response 500 ''{}''"
             and failure = "''timeout''"]
  by (simp add: example_response_def example_json_loads_def)

text \<open>
  C4 as stated fails: a 502 response whose body is an HTML page resolves to the
  parser's error, not to a RemotePeerError that carries a parsed body.
\<close>

theorem RemotePeer_pushUpdates_unparsable_body:
  "RemotePeer_pushUpdates (\<lambda>_ _. Inr (example_response 502 ''<html>Bad Gateway</html>''))
     example_json_loads example_remote_peer [(6 :: int, bind_row)]
     = Errback (Failure ''ValueError'') \<and>
   (\<forall>errObj.
      RemotePeer_pushUpdates (\<lambda>_ _. Inr (example_response 502 ''<html>Bad Gateway</html>''))
        example_json_loads example_remote_peer [(6 :: int, bind_row)]
      \<noteq> Errback (RemotePeerError errObj))"
  by (simp add: RemotePeer_pushUpdates_def pushSuccess_def failedPushBodyRead_def
      pushFailed_def example_response_def example_json_loads_def)

section \<open>Pusher: signing with the shadow rewrite\<close>

lemma replace_from_before_colon:
  "CHR '':'' \<notin> set pre \<Longrightarrow>
     replace_from (CHR '':'' # m) new (pre @ s) = pre @ replace_from (CHR '':'' # m) new s"
  by (induction pre) auto

lemma replace_from_whole: "old \<noteq> [] \<Longrightarrow> replace_from old new old = new"
  by (cases old) auto

lemma str_replace_domain:
  assumes "CHR '':'' \<notin> set localpart"
  shows "str_replace ('':'' @ master) ('':'' @ slave) (localpart @ '':'' @ master)
           = localpart @ '':'' @ slave"
  using assms replace_from_before_colon [of localpart master "'':'' @ slave" "'':'' @ master"]
    replace_from_whole [of "'':'' @ master" "'':'' @ slave"]
  by (simp add: str_replace_def)

text \<open>
  C9, as the code has it. Every fetched association is signed, after the rewrite. The
  rewrite leaves the association as it is unless the peer is a shadow peer, both shadow
  hosts are configured and the mxid is not null; in that case the mxid becomes
  \<open>mxid.replace(":" + master, ":" + slave)\<close>, which replaces every occurrence of
  \<open>:master\<close> in it. For an mxid \<open>localpart:master\<close> whose local part has no colon
  that is the replacement of the domain.
\<close>

theorem getSignedAssociationsAfterId_rewrites_then_signs:
  "getSignedAssociationsAfterId syd store sign afterId limit is_shadow =
     (map (\<lambda>row. (fst row, sign (shadow_rewrite syd is_shadow (snd row))))
        (fst (getAssociationsAfterId store afterId limit)),
      snd (getAssociationsAfterId store afterId limit)) \<and>
   (\<not> (is_shadow \<and> truthy (shadow_hs_master syd) \<and> truthy (shadow_hs_slave syd) \<and>
        mxid assoc \<noteq> None) \<longrightarrow>
      shadow_rewrite syd is_shadow assoc = assoc) \<and>
   (is_shadow \<and> shadow_hs_master syd = Some master \<and> master \<noteq> [] \<and>
    shadow_hs_slave syd = Some slave \<and> slave \<noteq> [] \<and> mxid assoc = Some x \<longrightarrow>
      shadow_rewrite syd is_shadow assoc =
        assoc\<lparr>mxid := Some (str_replace ('':'' @ master) ('':'' @ slave) x)\<rparr>) \<and>
   (CHR '':'' \<notin> set localpart \<longrightarrow>
      str_replace ('':'' @ master) ('':'' @ slave) (localpart @ '':'' @ master)
        = localpart @ '':'' @ slave)"
proof (intro conjI impI)
  show "getSignedAssociationsAfterId syd store sign afterId limit is_shadow =
     (map (\<lambda>row. (fst row, sign (shadow_rewrite syd is_shadow (snd row))))
        (fst (getAssociationsAfterId store afterId limit)),
      snd (getAssociationsAfterId store afterId limit))"
    by (simp add: getSignedAssociationsAfterId_def case_prod_unfold Let_def)
next
  assume "\<not> (is_shadow \<and> truthy (shadow_hs_master syd) \<and> truthy (shadow_hs_slave syd) \<and>
        mxid assoc \<noteq> None)"
  then show "shadow_rewrite syd is_shadow assoc = assoc"
    by (auto simp: shadow_rewrite_def truthy_def)
next
  assume a: "is_shadow \<and> shadow_hs_master syd = Some master \<and> master \<noteq> [] \<and>
    shadow_hs_slave syd = Some slave \<and> slave \<noteq> [] \<and> mxid assoc = Some x"
  show "shadow_rewrite syd is_shadow assoc =
        assoc\<lparr>mxid := Some (str_replace ('':'' @ master) ('':'' @ slave) x)\<rparr>"
  proof (cases "x = []")
    case True
    with a have "shadow_rewrite syd is_shadow assoc = assoc"
      by (simp add: shadow_rewrite_def truthy_def)
    moreover from True a have "assoc\<lparr>mxid := Some (str_replace ('':'' @ master) ('':'' @ slave) x)\<rparr> = assoc"
      by (simp add: str_replace_def)
    ultimately show ?thesis by simp
  next
    case False
    with a show ?thesis
      by (simp add: shadow_rewrite_def truthy_def)
  qed
next
  assume "CHR '':'' \<notin> set localpart"
  then show "str_replace ('':'' @ master) ('':'' @ slave) (localpart @ '':'' @ master)
        = localpart @ '':'' @ slave"
    by (rule str_replace_domain)
qed

theorem getSignedAssociationsAfterId_rewrites_then_signs_witness:
  "getSignedAssociationsAfterId example_sydent example_rows example_signer 5 (Some 100) True
     = (sg_assocs example_batch, Some 8) \<and>
   shadow_rewrite example_sydent False (example_assoc ''a@b.com'' (Some ''@a:hs.org''))
     = example_assoc ''a@b.com'' (Some ''@a:hs.org'') \<and>
   shadow_rewrite example_sydent True (example_assoc ''a@b.com'' (Some ''@a:hs.org''))
     = example_assoc ''a@b.com'' (Some ''@a:shadow.org'')"
  using getSignedAssociationsAfterId_rewrites_then_signs
          [where syd = example_sydent and store = example_rows and sign = example_signer
             and afterId = 5 and limit = "Some 100" and is_shadow = False
             and assoc = "example_assoc ''a@b.com'' (Some ''@a:hs.org'')"
             and master = "''hs.org''" and slave = "''shadow.org''" and x = "''@a:hs.org''"
             and localpart = "''@a''"]
        getSignedAssociationsAfterId_rewrites_then_signs
          [where syd = example_sydent and store = example_rows and sign = example_signer
             and afterId = 5 and limit = "Some 100" and is_shadow = True
             and assoc = "example_assoc ''a@b.com'' (Some ''@a:hs.org'')"
             and master = "''hs.org''" and slave = "''shadow.org''" and x = "''@a:hs.org''"
             and localpart = "''@a''"]
  by (simp add: example_sydent_def example_assoc_def example_rows_def example_batch_def
      getAssociationsAfterId_def getAfterId_def shadow_rewrite_def truthy_def str_replace_def)

text \<open>
  C9 as stated fails: in \<open>@bob:hs.org.uk\<close> the text \<open>:hs.org\<close> is not the domain
  suffix, and replacing the domain suffix leaves the identifier alone; the code
  rewrites it to \<open>@bob:shadow.org.uk\<close> before signing.
\<close>

theorem getSignedAssociationsAfterId_rewrites_inside:
  "getSignedAssociationsAfterId example_sydent
     [(6, example_assoc ''a@b.com'' (Some ''@bob:hs.org.uk''))] example_signer 5 (Some 100) True
     = ([(6, example_signer (example_assoc ''a@b.com'' (Some ''@bob:shadow.org.uk'')))], Some 6) \<and>
   replace_domain_suffix ''hs.org'' ''shadow.org'' ''@bob:hs.org.uk'' = ''@bob:hs.org.uk'' \<and>
   mxid (shadow_rewrite example_sydent True (example_assoc ''a@b.com'' (Some ''@bob:hs.org.uk'')))
     \<noteq> Some (replace_domain_suffix ''hs.org'' ''shadow.org'' ''@bob:hs.org.uk'')"
  by (simp add: getSignedAssociationsAfterId_def getAssociationsAfterId_def getAfterId_def
      shadow_rewrite_def example_sydent_def truthy_def example_assoc_def str_replace_def
      replace_domain_suffix_def suffix_def)

section \<open>Pusher: the routine \<open>_push_to_peer\<close>\<close>

text \<open>The five routines before \<open>_push_to_peer\<close> pass the compiler's check.\<close>

lemma routines_before_compile:
  "compile_module
     [ClassDef 36
        [init_source, setup_source, getSignedAssociationsAfterId_source, doLocalPush_source,
         scheduledPush_source]] = Inr ()"
  by (simp add: compile_module_def init_source_def setup_source_def
      getSignedAssociationsAfterId_source_def doLocalPush_source_def scheduledPush_source_def)

text \<open>The names that the handler of l.151 loads are bound; \<open>self\<close> is not.\<close>

lemma handler_names_bound: "load_names push_to_peer_locals line_151_names = Inr ()"
  by (simp add: line_151_names_def load_name_def push_to_peer_locals_def module_globals_def)

lemma line_129_raises: "load_names push_to_peer_locals line_129_names = Inl (NameError ''self'')"
  by (simp add: line_129_names_def load_name_def push_to_peer_locals_def module_globals_def
      builtin_names_def)

text \<open>
  In the scope of \<open>scheduledPush\<close>, which binds \<open>self\<close> and creates
  \<open>join_token_store\<close> (l.98), the same names are bound.
\<close>

lemma line_129_in_scheduledPush:
  "load_names scheduledPush_locals line_129_names = Inr () \<and>
   load_name scheduledPush_locals ''join_token_store'' = Inr ()"
  by (simp add: line_129_names_def load_name_def scheduledPush_locals_def module_globals_def)

text \<open>
  So a session for a peer whose flag is clear ends in its first pass: the NameError of
  l.129 is caught and logged, and the flag is clear again.
\<close>

lemma push_session_ends:
  "push_session st =
     (Caught (NameError ''self''), st\<lparr>peer := (peer st)\<lparr>is_being_pushed_to := False\<rparr>\<rparr>)"
  by (simp add: push_session_def line_129_raises handler_names_bound)

text \<open>
  C1. The claim: invoked for a peer whose flag is set, \<open>_push_to_peer\<close> is a no-op,
  and otherwise the flag is set for the duration of the session and cleared on every
  way out. The code: the guard for the set flag (l.112) ends in the \<open>continue\<close> of
  l.114, and no loop of the routine is around it, the only loop being the \<open>while\<close>
  of l.120 further down. That is the one misplaced statement of the routine, and for
  it pusher.py as a whole is refused with SyntaxError: there is no call of
  \<open>_push_to_peer\<close> that returns at the guard. Moreover the call of l.107 names
  \<open>_push_to_peer\<close>, which is a name of the class body and so is bound in no scope
  that \<open>scheduledPush\<close> can see: the call raises NameError.
\<close>

theorem push_to_peer_guard_does_not_compile:
  "loop_errors False push_to_peer_source = [SyntaxError 114 ''continue not properly in loop''] \<and>
   compile_module pusher_py = Inl (SyntaxError 114 ''continue not properly in loop'') \<and>
   load_name scheduledPush_locals ''_push_to_peer'' = Inl (NameError ''_push_to_peer'')"
  by (simp add: compile_module_def pusher_py_def init_source_def setup_source_def
      getSignedAssociationsAfterId_source_def doLocalPush_source_def scheduledPush_source_def
      push_to_peer_source_def load_name_def scheduledPush_locals_def module_globals_def
      builtin_names_def)

text \<open>
  C2. The claim: every pass of the loop fetches the batch after the peer's cursors,
  and the persisted cursors move only after a confirmed delivery. The code: the
  routine's header binds \<open>p\<close> only, so neither \<open>self\<close> nor \<open>join_token_store\<close>
  is a name the routine can see. For every state, the first pass of the loop raises
  NameError on \<open>self\<close> at l.129, before the first fetch; the handler logs it and the
  session ends with the flag cleared. No fetch, no delivery and no persist has been
  made, and the peer store is as it was.
\<close>

theorem push_session_reaches_no_fetch:
  "load_name push_to_peer_locals ''self'' = Inl (NameError ''self'') \<and>
   load_name push_to_peer_locals ''join_token_store'' = Inl (NameError ''join_token_store'') \<and>
   push_session st =
     (Caught (NameError ''self''), st\<lparr>peer := (peer st)\<lparr>is_being_pushed_to := False\<rparr>\<rparr>) \<and>
   calls (snd (push_session st)) = calls st \<and>
   peerStore (snd (push_session st)) = peerStore st"
  by (simp add: push_session_ends)
    (simp add: load_name_def push_to_peer_locals_def module_globals_def builtin_names_def)

text \<open>
  C7, at the specification's scenario: the peer \<open>peer.org\<close> with its association
  cursor at 5, in the peer object and in the peer store, and the rows 6, 7 and 8 in the
  local store. The claim: the session makes one delivery (three rows, the limit being
  100) and ends with the persisted cursor at 8. The code: three rows are waiting and
  their highest id is 8, but the session ends on the NameError of l.129 in the state in
  which it started: no call has been made, and the cursor is 5 in both places.
\<close>

theorem push_session_delivers_nothing:
  "length (fst (getAssociationsAfterId example_rows (lastSentAssocsId (peer example_session))
                  (Some ASSOCIATIONS_PUSH_LIMIT))) = 3 \<and>
   snd (getAssociationsAfterId example_rows (lastSentAssocsId (peer example_session))
          (Some ASSOCIATIONS_PUSH_LIMIT)) = Some 8 \<and>
   push_session example_session = (Caught (NameError ''self''), example_session) \<and>
   calls example_session = [] \<and>
   lastSentAssocsId (peer example_session) = 5 \<and>
   map_option sentAssocsId (peerStore example_session ''peer.org'') = Some 5"
  by (simp add: push_session_ends)
    (simp add: example_session_def example_remote_peer_def example_store_def example_rows_def
      getAssociationsAfterId_def getAfterId_def ASSOCIATIONS_PUSH_LIMIT_def)

end
